theory Spec2Isabelle
  imports Complex_Main
begin

section \<open>JavaScript numbers\<close>

text \<open>
  The transform engine of \<^verbatim>\<open>src/lib/transforms.js\<close> computes with JavaScript numbers.
  A finite number is modelled by the real it denotes; the three non-finite values are
  kept, because the code divides without looking at the divisor.  The sign of a zero is
  not modelled: a division of a nonzero number by zero gives the infinity that a
  positive zero gives.

  The operators \<open>+\<close>, \<open>-\<close>, \<open>*\<close>, \<open>/\<close> defined here are exact on finite numbers: they
  give the formulas of the code without rounding, overflow or underflow, and the
  functions written with them are the code in exact arithmetic.  The section on double
  arithmetic below rounds the result of every operation to a double, and repeats the
  affine fitter and the affine branches of the evaluators with the rounded operations;
  the properties that depend on what the code computes near a threshold, or with large
  numbers, are stated there.
\<close>

datatype number = Num real | PosInf | NegInf | NaN

fun isFinite :: "number \<Rightarrow> bool" where
  "isFinite (Num x) = True"
| "isFinite PosInf = False"
| "isFinite NegInf = False"
| "isFinite NaN = False"

instantiation number :: "{uminus, plus, minus, times, inverse}"
begin

fun uminus_number :: "number \<Rightarrow> number" where
  "uminus_number (Num x) = Num (- x)"
| "uminus_number PosInf = NegInf"
| "uminus_number NegInf = PosInf"
| "uminus_number NaN = NaN"

fun plus_number :: "number \<Rightarrow> number \<Rightarrow> number" where
  "plus_number (Num x) (Num y) = Num (x + y)"
| "plus_number NaN v = NaN"
| "plus_number u NaN = NaN"
| "plus_number PosInf NegInf = NaN"
| "plus_number NegInf PosInf = NaN"
| "plus_number PosInf v = PosInf"
| "plus_number u PosInf = PosInf"
| "plus_number NegInf v = NegInf"
| "plus_number u NegInf = NegInf"

definition minus_number :: "number \<Rightarrow> number \<Rightarrow> number" where
  "minus_number u v = u + (- v)"

fun times_number :: "number \<Rightarrow> number \<Rightarrow> number" where
  "times_number (Num x) (Num y) = Num (x * y)"
| "times_number NaN v = NaN"
| "times_number u NaN = NaN"
| "times_number PosInf (Num y) = (if y = 0 then NaN else if 0 < y then PosInf else NegInf)"
| "times_number NegInf (Num y) = (if y = 0 then NaN else if 0 < y then NegInf else PosInf)"
| "times_number (Num x) PosInf = (if x = 0 then NaN else if 0 < x then PosInf else NegInf)"
| "times_number (Num x) NegInf = (if x = 0 then NaN else if 0 < x then NegInf else PosInf)"
| "times_number PosInf PosInf = PosInf"
| "times_number PosInf NegInf = NegInf"
| "times_number NegInf PosInf = NegInf"
| "times_number NegInf NegInf = PosInf"

fun divide_number :: "number \<Rightarrow> number \<Rightarrow> number" where
  "divide_number (Num x) (Num y) =
     (if y \<noteq> 0 then Num (x / y)
      else if 0 < x then PosInf else if x < 0 then NegInf else NaN)"
| "divide_number NaN v = NaN"
| "divide_number u NaN = NaN"
| "divide_number (Num x) PosInf = Num 0"
| "divide_number (Num x) NegInf = Num 0"
| "divide_number PosInf (Num y) = (if 0 \<le> y then PosInf else NegInf)"
| "divide_number NegInf (Num y) = (if 0 \<le> y then NegInf else PosInf)"
| "divide_number PosInf PosInf = NaN"
| "divide_number PosInf NegInf = NaN"
| "divide_number NegInf PosInf = NaN"
| "divide_number NegInf NegInf = NaN"

definition inverse_number :: "number \<Rightarrow> number" where
  "inverse_number u = divide (Num 1) u"

instance ..

end

text \<open>The comparison \<^verbatim>\<open><\<close>: false whenever an operand is NaN.\<close>

fun js_lt :: "number \<Rightarrow> number \<Rightarrow> bool" where
  "js_lt (Num x) (Num y) = (x < y)"
| "js_lt NaN v = False"
| "js_lt u NaN = False"
| "js_lt PosInf v = False"
| "js_lt u PosInf = True"
| "js_lt u NegInf = False"
| "js_lt NegInf v = True"

fun Math_abs :: "number \<Rightarrow> number" where
  "Math_abs (Num x) = Num \<bar>x\<bar>"
| "Math_abs PosInf = PosInf"
| "Math_abs NegInf = PosInf"
| "Math_abs NaN = NaN"

fun Math_sqrt :: "number \<Rightarrow> number" where
  "Math_sqrt (Num x) = (if x < 0 then NaN else Num (sqrt x))"
| "Math_sqrt PosInf = PosInf"
| "Math_sqrt NegInf = NaN"
| "Math_sqrt NaN = NaN"

fun Math_cos :: "number \<Rightarrow> number" where
  "Math_cos (Num x) = Num (cos x)"
| "Math_cos PosInf = NaN"
| "Math_cos NegInf = NaN"
| "Math_cos NaN = NaN"

fun Math_sin :: "number \<Rightarrow> number" where
  "Math_sin (Num x) = Num (sin x)"
| "Math_sin PosInf = NaN"
| "Math_sin NegInf = NaN"
| "Math_sin NaN = NaN"

text \<open>
  The angle of the point \<open>(x, y)\<close> in \<open>(-\<pi>, \<pi>]\<close>, with \<^verbatim>\<open>Math.atan2(0, 0) = 0\<close>.
\<close>

definition atan2 :: "real \<Rightarrow> real \<Rightarrow> real" where
  "atan2 y x =
     (if 0 < x then arctan (y / x)
      else if x < 0 then (if 0 \<le> y then arctan (y / x) + pi else arctan (y / x) - pi)
      else if 0 < y then pi / 2
      else if y < 0 then - (pi / 2)
      else 0)"

fun Math_atan2 :: "number \<Rightarrow> number \<Rightarrow> number" where
  "Math_atan2 (Num y) (Num x) = Num (atan2 y x)"
| "Math_atan2 NaN v = NaN"
| "Math_atan2 u NaN = NaN"
| "Math_atan2 (Num y) PosInf = Num 0"
| "Math_atan2 (Num y) NegInf = (if 0 \<le> y then Num pi else Num (- pi))"
| "Math_atan2 PosInf (Num x) = Num (pi / 2)"
| "Math_atan2 NegInf (Num x) = Num (- (pi / 2))"
| "Math_atan2 PosInf PosInf = Num (pi / 4)"
| "Math_atan2 PosInf NegInf = Num (3 * pi / 4)"
| "Math_atan2 NegInf PosInf = Num (- (pi / 4))"
| "Math_atan2 NegInf NegInf = Num (- (3 * pi / 4))"

section \<open>Data model\<close>

text \<open>A reference point \<^verbatim>\<open>{imageX, imageY, lon, lat}\<close>.\<close>

record refpoint =
  imageX :: number
  imageY :: number
  lon :: number
  lat :: number

text \<open>The similarity parameters \<^verbatim>\<open>{scale, rotation, tx, ty}\<close>.\<close>

record similarity =
  scale :: number
  rotation :: number
  tx :: number
  ty :: number

text \<open>
  The affine parameters \<^verbatim>\<open>{a, b, c, d, e, f}\<close>: \<open>lon = a*x + b*y + c\<close> and
  \<open>lat = d*x + e*y + f\<close>.
\<close>

record affine =
  a :: number
  b :: number
  c :: number
  d :: number
  e :: number
  f :: number

text \<open>The \<^verbatim>\<open>transform\<close> object handed to the evaluators is one or the other.\<close>

datatype transform = SimilarityT similarity | AffineT affine

text \<open>
  The errors thrown, named by kind; the messages are
  \<^verbatim>\<open>Need at least 2 reference points\<close>,
  \<^verbatim>\<open>Need at least 3 reference points for affine transform\<close>,
  \<^verbatim>\<open>Points are collinear, cannot compute affine transform\<close>,
  \<^verbatim>\<open>Transform is singular\<close> and \<^verbatim>\<open>Unknown transform type\<close>.
\<close>

datatype error =
  NeedTwoPoints | NeedThreePoints | CollinearPoints | SingularTransform | UnknownTransformType

section \<open>Fitting\<close>

subsection \<open>computeSimilarityTransform\<close>

definition computeSimilarityTransform :: "refpoint list \<Rightarrow> error + similarity" where
  "computeSimilarityTransform referencePoints =
     (case referencePoints of
        p1 # p2 # rest \<Rightarrow>
          (let dx_img = imageX p2 - imageX p1;
               dy_img = imageY p2 - imageY p1;
               dx_geo = lon p2 - lon p1;
               dy_geo = lat p2 - lat p1;
               dist_img = Math_sqrt (dx_img * dx_img + dy_img * dy_img);
               dist_geo = Math_sqrt (dx_geo * dx_geo + dy_geo * dy_geo);
               scale = dist_geo / dist_img;
               angle_img = Math_atan2 dy_img dx_img;
               angle_geo = Math_atan2 dy_geo dx_geo;
               rotation = angle_geo - angle_img;
               cos_r = Math_cos rotation;
               sin_r = Math_sin rotation;
               tx = lon p1 - (scale * cos_r * imageX p1 - scale * sin_r * imageY p1);
               ty = lat p1 - (scale * sin_r * imageX p1 + scale * cos_r * imageY p1)
           in Inr \<lparr>scale = scale, rotation = rotation, tx = tx, ty = ty\<rparr>)
      | _ \<Rightarrow> Inl NeedTwoPoints)"

subsection \<open>computeAffineTransform (least squares)\<close>

text \<open>The eleven running sums of the loop over the reference points.\<close>

record running_sums =
  sum_x :: number
  sum_y :: number
  sum_x2 :: number
  sum_y2 :: number
  sum_xy :: number
  sum_lon :: number
  sum_lat :: number
  sum_x_lon :: number
  sum_y_lon :: number
  sum_x_lat :: number
  sum_y_lat :: number

definition sums0 :: running_sums where
  "sums0 = \<lparr>sum_x = Num 0, sum_y = Num 0, sum_x2 = Num 0, sum_y2 = Num 0, sum_xy = Num 0,
             sum_lon = Num 0, sum_lat = Num 0, sum_x_lon = Num 0, sum_y_lon = Num 0,
             sum_x_lat = Num 0, sum_y_lat = Num 0\<rparr>"

definition add_point :: "running_sums \<Rightarrow> refpoint \<Rightarrow> running_sums" where
  "add_point s p =
     \<lparr>sum_x = sum_x s + imageX p,
      sum_y = sum_y s + imageY p,
      sum_x2 = sum_x2 s + imageX p * imageX p,
      sum_y2 = sum_y2 s + imageY p * imageY p,
      sum_xy = sum_xy s + imageX p * imageY p,
      sum_lon = sum_lon s + lon p,
      sum_lat = sum_lat s + lat p,
      sum_x_lon = sum_x_lon s + imageX p * lon p,
      sum_y_lon = sum_y_lon s + imageY p * lon p,
      sum_x_lat = sum_x_lat s + imageX p * lat p,
      sum_y_lat = sum_y_lat s + imageY p * lat p\<rparr>"

definition accumulate :: "refpoint list \<Rightarrow> running_sums" where
  "accumulate referencePoints = foldl add_point sums0 referencePoints"

text \<open>The determinant of the normal equations, as the code expands it.\<close>

definition normal_det :: "number \<Rightarrow> running_sums \<Rightarrow> number" where
  "normal_det n s =
     n * (sum_x2 s * sum_y2 s - sum_xy s * sum_xy s)
       - sum_x s * (sum_x s * sum_y2 s - sum_y s * sum_xy s)
       + sum_y s * (sum_x s * sum_xy s - sum_y s * sum_x2 s)"

definition tolerance :: number where
  "tolerance = Num (1 / 10 ^ 10)"

definition computeAffineTransform :: "refpoint list \<Rightarrow> error + affine" where
  "computeAffineTransform referencePoints =
     (if length referencePoints < 3 then Inl NeedThreePoints
      else
        let n = Num (real (length referencePoints));
            s = accumulate referencePoints;
            det = normal_det n s
        in if js_lt (Math_abs det) tolerance then Inl CollinearPoints
           else
             let a = (n * (sum_x_lon s * sum_y2 s - sum_y_lon s * sum_xy s)
                        - sum_x s * (sum_lon s * sum_y2 s - sum_y s * sum_y_lon s)
                        + sum_y s * (sum_lon s * sum_xy s - sum_y s * sum_x_lon s)) / det;
                 b = (n * (sum_x2 s * sum_y_lon s - sum_xy s * sum_x_lon s)
                        - sum_x s * (sum_x s * sum_y_lon s - sum_y s * sum_x_lon s)
                        + sum_y s * (sum_x s * sum_lon s - sum_x2 s * sum_lon s)) / det;
                 c = (n * (sum_x2 s * sum_y2 s - sum_xy s * sum_xy s)
                        - sum_x s * (sum_x s * sum_y2 s - sum_y s * sum_xy s)
                        + sum_y s * (sum_x s * sum_xy s - sum_y s * sum_x2 s)) / det;
                 c_val = (sum_lon s - a * sum_x s - b * sum_y s) / n;
                 d = (n * (sum_x_lat s * sum_y2 s - sum_y_lat s * sum_xy s)
                        - sum_x s * (sum_lat s * sum_y2 s - sum_y s * sum_y_lat s)
                        + sum_y s * (sum_lat s * sum_xy s - sum_y s * sum_x_lat s)) / det;
                 e = (n * (sum_x2 s * sum_y_lat s - sum_xy s * sum_x_lat s)
                        - sum_x s * (sum_x s * sum_y_lat s - sum_y s * sum_x_lat s)
                        + sum_y s * (sum_x s * sum_lat s - sum_x2 s * sum_lat s)) / det;
                 f_val = (sum_lat s - d * sum_x s - e * sum_y s) / n
             in Inr \<lparr>a = a, b = b, c = c_val, d = d, e = e, f = f_val\<rparr>)"

section \<open>Evaluation\<close>

text \<open>
  Destructuring a property that the object does not have gives \<^verbatim>\<open>undefined\<close>, which
  every arithmetic operator and \<^verbatim>\<open>Math\<close> function of the evaluators turns into NaN.
\<close>

definition similarity_of :: "transform \<Rightarrow> similarity" where
  "similarity_of t =
     (case t of SimilarityT m \<Rightarrow> m
      | AffineT m \<Rightarrow> \<lparr>scale = NaN, rotation = NaN, tx = NaN, ty = NaN\<rparr>)"

definition affine_of :: "transform \<Rightarrow> affine" where
  "affine_of t =
     (case t of AffineT m \<Rightarrow> m
      | SimilarityT m \<Rightarrow> \<lparr>a = NaN, b = NaN, c = NaN, d = NaN, e = NaN, f = NaN\<rparr>)"

text \<open>\<^verbatim>\<open>imageToGeo(imageX, imageY, transform, type)\<close>; the result is \<open>(lon, lat)\<close>.\<close>

definition imageToGeo ::
  "number \<Rightarrow> number \<Rightarrow> transform \<Rightarrow> string \<Rightarrow> error + number \<times> number" where
  "imageToGeo px py t tp =
     (if tp = ''similarity'' then
        let m = similarity_of t;
            cos_r = Math_cos (rotation m);
            sin_r = Math_sin (rotation m);
            lon = scale m * cos_r * px - scale m * sin_r * py + tx m;
            lat = scale m * sin_r * px + scale m * cos_r * py + ty m
        in Inr (lon, lat)
      else if tp = ''affine'' then
        let m = affine_of t;
            lon = a m * px + b m * py + c m;
            lat = d m * px + e m * py + f m
        in Inr (lon, lat)
      else Inl UnknownTransformType)"

text \<open>\<^verbatim>\<open>geoToImage(lon, lat, transform, type)\<close>; the result is \<open>(imageX, imageY)\<close>.\<close>

definition geoToImage ::
  "number \<Rightarrow> number \<Rightarrow> transform \<Rightarrow> string \<Rightarrow> error + number \<times> number" where
  "geoToImage glon glat t tp =
     (if tp = ''similarity'' then
        let m = similarity_of t;
            cos_r = Math_cos (rotation m);
            sin_r = Math_sin (rotation m);
            lon_shifted = glon - tx m;
            lat_shifted = glat - ty m;
            imageX = (cos_r * lon_shifted + sin_r * lat_shifted) / scale m;
            imageY = ((- sin_r) * lon_shifted + cos_r * lat_shifted) / scale m
        in Inr (imageX, imageY)
      else if tp = ''affine'' then
        let m = affine_of t;
            det = a m * e m - b m * d m
        in if js_lt (Math_abs det) tolerance then Inl SingularTransform
           else
             let lon_shifted = glon - c m;
                 lat_shifted = glat - f m;
                 imageX = (e m * lon_shifted - b m * lat_shifted) / det;
                 imageY = ((- d m) * lon_shifted + a m * lat_shifted) / det
             in Inr (imageX, imageY)
      else Inl UnknownTransformType)"

section \<open>Model selection\<close>

text \<open>
  \<^verbatim>\<open>calculateTransform(referencePoints)\<close>: the argument may be missing (\<open>None\<close>); the
  result is \<^verbatim>\<open>null\<close> (\<open>None\<close>) or \<^verbatim>\<open>{transform, type}\<close>, and an error thrown by a fitter
  passes through.
\<close>

definition calculateTransform :: "refpoint list option \<Rightarrow> error + (transform \<times> string) option" where
  "calculateTransform arg =
     (case arg of
        None \<Rightarrow> Inr None
      | Some referencePoints \<Rightarrow>
          if length referencePoints < 2 then Inr None
          else if length referencePoints = 2 then
            (case computeSimilarityTransform referencePoints of
               Inl err \<Rightarrow> Inl err
             | Inr m \<Rightarrow> Inr (Some (SimilarityT m, ''similarity'')))
          else
            (case computeAffineTransform referencePoints of
               Inl err \<Rightarrow> Inl err
             | Inr m \<Rightarrow> Inr (Some (AffineT m, ''affine''))))"

subsection \<open>The triangle-based affine fitter\<close>

text \<open>
  A second \<^verbatim>\<open>computeAffineTransform\<close> of the repository fits the affine model from the
  first three points with \<^verbatim>\<open>fromTriangles\<close> of the library \<^verbatim>\<open>transformation-matrix\<close>.
  The library is not part of the repository, so \<^verbatim>\<open>fromTriangles\<close> is a parameter here:
  it takes the image triangle and the geographic triangle and returns a matrix object
  \<^verbatim>\<open>{a, b, c, d, e, f}\<close> in the library's layout, or throws (\<open>None\<close>), which the code
  turns into the collinearity error.
\<close>

definition computeAffineTransform_triangles ::
  "((number \<times> number) list \<Rightarrow> (number \<times> number) list \<Rightarrow> affine option)
     \<Rightarrow> refpoint list \<Rightarrow> error + affine" where
  "computeAffineTransform_triangles fromTriangles referencePoints =
     (if length referencePoints < 3 then Inl NeedThreePoints
      else
        let imageTriangle = map (\<lambda>p. (imageX p, imageY p)) (take 3 referencePoints);
            geoTriangle = map (\<lambda>p. (lon p, lat p)) (take 3 referencePoints)
        in case fromTriangles imageTriangle geoTriangle of
             None \<Rightarrow> Inl CollinearPoints
           | Some matrix \<Rightarrow>
               Inr \<lparr>a = a matrix, b = c matrix, c = e matrix,
                    d = b matrix, e = d matrix, f = f matrix\<rparr>)"

section \<open>Double arithmetic\<close>

text \<open>
  A JavaScript number is an IEEE 754 binary64 value, and each arithmetic operation
  returns the exact result rounded to the nearest double, ties to the even significand.
  \<open>fl x\<close> is that rounding of the real \<open>x\<close>: the exponent is that of the binade of
  \<open>x\<close>, not below \<open>-1022\<close> (subnormal numbers), a unit in the last place is \<open>2\<close> to
  the exponent minus 52, and a result of magnitude \<open>2 ^ 1024\<close> or more is infinite.
\<close>

definition pow2 :: "int \<Rightarrow> real" where
  "pow2 k = (if 0 \<le> k then 2 ^ nat k else 1 / 2 ^ nat (- k))"

definition round_half_even :: "real \<Rightarrow> int" where
  "round_half_even q =
     (let n = \<lfloor>q\<rfloor>; r = q - of_int n
      in if r < 1 / 2 then n else if 1 / 2 < r then n + 1 else if even n then n else n + 1)"

definition exponent :: "real \<Rightarrow> int" where
  "exponent x = max \<lfloor>log 2 \<bar>x\<bar>\<rfloor> (- 1022)"

definition fl :: "real \<Rightarrow> number" where
  "fl x =
     (if x = 0 then Num 0
      else
        let ulp = pow2 (exponent x - 52);
            y = of_int (round_half_even (x / ulp)) * ulp
        in if pow2 1024 \<le> y then PosInf
           else if y \<le> - pow2 1024 then NegInf
           else Num y)"

fun rnd :: "number \<Rightarrow> number" where
  "rnd (Num x) = fl x"
| "rnd PosInf = PosInf"
| "rnd NegInf = NegInf"
| "rnd NaN = NaN"

text \<open>The four operations of the code: the exact result, rounded.\<close>

definition fl_add :: "number \<Rightarrow> number \<Rightarrow> number" where
  "fl_add u v = rnd (u + v)"

definition fl_sub :: "number \<Rightarrow> number \<Rightarrow> number" where
  "fl_sub u v = rnd (u - v)"

definition fl_mul :: "number \<Rightarrow> number \<Rightarrow> number" where
  "fl_mul u v = rnd (u * v)"

definition fl_div :: "number \<Rightarrow> number \<Rightarrow> number" where
  "fl_div u v = rnd (u / v)"

text \<open>The expression \<open>p * q - r * s\<close>.\<close>

definition cross_fl :: "number \<Rightarrow> number \<Rightarrow> number \<Rightarrow> number \<Rightarrow> number" where
  "cross_fl p q r s = fl_sub (fl_mul p q) (fl_mul r s)"

text \<open>The expression \<open>n * t1 - sx * t2 + sy * t3\<close>, evaluated from the left.\<close>

definition expand_fl ::
  "number \<Rightarrow> number \<Rightarrow> number \<Rightarrow> number \<Rightarrow> number \<Rightarrow> number \<Rightarrow> number" where
  "expand_fl n t1 sx t2 sy t3 = fl_add (fl_sub (fl_mul n t1) (fl_mul sx t2)) (fl_mul sy t3)"

subsection \<open>computeAffineTransform in double arithmetic\<close>

definition add_point_fl :: "running_sums \<Rightarrow> refpoint \<Rightarrow> running_sums" where
  "add_point_fl s p =
     \<lparr>sum_x = fl_add (sum_x s) (imageX p),
      sum_y = fl_add (sum_y s) (imageY p),
      sum_x2 = fl_add (sum_x2 s) (fl_mul (imageX p) (imageX p)),
      sum_y2 = fl_add (sum_y2 s) (fl_mul (imageY p) (imageY p)),
      sum_xy = fl_add (sum_xy s) (fl_mul (imageX p) (imageY p)),
      sum_lon = fl_add (sum_lon s) (lon p),
      sum_lat = fl_add (sum_lat s) (lat p),
      sum_x_lon = fl_add (sum_x_lon s) (fl_mul (imageX p) (lon p)),
      sum_y_lon = fl_add (sum_y_lon s) (fl_mul (imageY p) (lon p)),
      sum_x_lat = fl_add (sum_x_lat s) (fl_mul (imageX p) (lat p)),
      sum_y_lat = fl_add (sum_y_lat s) (fl_mul (imageY p) (lat p))\<rparr>"

definition accumulate_fl :: "refpoint list \<Rightarrow> running_sums" where
  "accumulate_fl referencePoints = foldl add_point_fl sums0 referencePoints"

definition normal_det_fl :: "number \<Rightarrow> running_sums \<Rightarrow> number" where
  "normal_det_fl n s =
     expand_fl n (cross_fl (sum_x2 s) (sum_y2 s) (sum_xy s) (sum_xy s))
       (sum_x s) (cross_fl (sum_x s) (sum_y2 s) (sum_y s) (sum_xy s))
       (sum_y s) (cross_fl (sum_x s) (sum_xy s) (sum_y s) (sum_x2 s))"

text \<open>The literal \<^verbatim>\<open>1e-10\<close> is the double nearest to \<open>1 / 10 ^ 10\<close>.\<close>

definition tolerance_fl :: number where
  "tolerance_fl = fl (1 / 10 ^ 10)"

definition computeAffineTransform_fl :: "refpoint list \<Rightarrow> error + affine" where
  "computeAffineTransform_fl referencePoints =
     (if length referencePoints < 3 then Inl NeedThreePoints
      else
        let n = fl (real (length referencePoints));
            s = accumulate_fl referencePoints;
            det = normal_det_fl n s
        in if js_lt (Math_abs det) tolerance_fl then Inl CollinearPoints
           else
             let a = fl_div
                   (expand_fl n (cross_fl (sum_x_lon s) (sum_y2 s) (sum_y_lon s) (sum_xy s))
                      (sum_x s) (cross_fl (sum_lon s) (sum_y2 s) (sum_y s) (sum_y_lon s))
                      (sum_y s) (cross_fl (sum_lon s) (sum_xy s) (sum_y s) (sum_x_lon s))) det;
                 b = fl_div
                   (expand_fl n (cross_fl (sum_x2 s) (sum_y_lon s) (sum_xy s) (sum_x_lon s))
                      (sum_x s) (cross_fl (sum_x s) (sum_y_lon s) (sum_y s) (sum_x_lon s))
                      (sum_y s) (cross_fl (sum_x s) (sum_lon s) (sum_x2 s) (sum_lon s))) det;
                 c = fl_div
                   (expand_fl n (cross_fl (sum_x2 s) (sum_y2 s) (sum_xy s) (sum_xy s))
                      (sum_x s) (cross_fl (sum_x s) (sum_y2 s) (sum_y s) (sum_xy s))
                      (sum_y s) (cross_fl (sum_x s) (sum_xy s) (sum_y s) (sum_x2 s))) det;
                 c_val = fl_div (fl_sub (fl_sub (sum_lon s) (fl_mul a (sum_x s)))
                                   (fl_mul b (sum_y s))) n;
                 d = fl_div
                   (expand_fl n (cross_fl (sum_x_lat s) (sum_y2 s) (sum_y_lat s) (sum_xy s))
                      (sum_x s) (cross_fl (sum_lat s) (sum_y2 s) (sum_y s) (sum_y_lat s))
                      (sum_y s) (cross_fl (sum_lat s) (sum_xy s) (sum_y s) (sum_x_lat s))) det;
                 e = fl_div
                   (expand_fl n (cross_fl (sum_x2 s) (sum_y_lat s) (sum_xy s) (sum_x_lat s))
                      (sum_x s) (cross_fl (sum_x s) (sum_y_lat s) (sum_y s) (sum_x_lat s))
                      (sum_y s) (cross_fl (sum_x s) (sum_lat s) (sum_x2 s) (sum_lat s))) det;
                 f_val = fl_div (fl_sub (fl_sub (sum_lat s) (fl_mul d (sum_x s)))
                                   (fl_mul e (sum_y s))) n
             in Inr \<lparr>a = a, b = b, c = c_val, d = d, e = e, f = f_val\<rparr>)"

subsection \<open>The affine branches of the evaluators in double arithmetic\<close>

text \<open>The branch \<^verbatim>\<open>type === 'affine'\<close> of \<^verbatim>\<open>imageToGeo\<close>, for an affine object.\<close>

definition imageToGeo_affine_fl ::
  "number \<Rightarrow> number \<Rightarrow> affine \<Rightarrow> error + number \<times> number" where
  "imageToGeo_affine_fl px py m =
     (let lon = fl_add (fl_add (fl_mul (a m) px) (fl_mul (b m) py)) (c m);
          lat = fl_add (fl_add (fl_mul (d m) px) (fl_mul (e m) py)) (f m)
      in Inr (lon, lat))"

text \<open>The branch \<^verbatim>\<open>type === 'affine'\<close> of \<^verbatim>\<open>geoToImage\<close>, for an affine object.\<close>

definition geoToImage_affine_fl ::
  "number \<Rightarrow> number \<Rightarrow> affine \<Rightarrow> error + number \<times> number" where
  "geoToImage_affine_fl glon glat m =
     (let det = cross_fl (a m) (e m) (b m) (d m)
      in if js_lt (Math_abs det) tolerance_fl then Inl SingularTransform
         else
           let lon_shifted = fl_sub glon (c m);
               lat_shifted = fl_sub glat (f m);
               imageX = fl_div (cross_fl (e m) lon_shifted (b m) lat_shifted) det;
               imageY = fl_div (fl_add (fl_mul (- d m) lon_shifted) (fl_mul (a m) lat_shifted))
                          det
           in Inr (imageX, imageY))"

section \<open>Inputs and predicates of the properties\<close>

text \<open>A reference point all of whose coordinates are finite numbers.\<close>

definition finite_point :: "refpoint \<Rightarrow> bool" where
  "finite_point p \<longleftrightarrow>
     isFinite (imageX p) \<and> isFinite (imageY p) \<and> isFinite (lon p) \<and> isFinite (lat p)"

text \<open>
  A model whose inverse is defined: it has the shape its tag names, finite parameters,
  and a nonzero scale (similarity) or a determinant that passes the tolerance test
  (affine).
\<close>

fun invertible :: "transform \<Rightarrow> string \<Rightarrow> bool" where
  "invertible (SimilarityT m) tp =
     (tp = ''similarity'' \<and> isFinite (scale m) \<and> isFinite (rotation m) \<and> isFinite (tx m)
        \<and> isFinite (ty m) \<and> scale m \<noteq> Num 0)"
| "invertible (AffineT m) tp =
     (tp = ''affine'' \<and> isFinite (a m) \<and> isFinite (b m) \<and> isFinite (c m) \<and> isFinite (d m)
        \<and> isFinite (e m) \<and> isFinite (f m)
        \<and> \<not> js_lt (Math_abs (a m * e m - b m * d m)) tolerance)"

text \<open>Scenario A: the image x-axis maps to +latitude.\<close>

definition scenarioA :: "refpoint list" where
  "scenarioA =
     [\<lparr>imageX = Num 0, imageY = Num 0, lon = Num 0, lat = Num 0\<rparr>,
      \<lparr>imageX = Num 100, imageY = Num 0, lon = Num 0, lat = Num 1\<rparr>]"

text \<open>Scenario B: the offset mapping \<open>(x, y) \<mapsto> (x + 10, y + 20)\<close> on three points.\<close>

definition scenarioB :: "refpoint list" where
  "scenarioB =
     [\<lparr>imageX = Num 0, imageY = Num 0, lon = Num 10, lat = Num 20\<rparr>,
      \<lparr>imageX = Num 1, imageY = Num 0, lon = Num 11, lat = Num 20\<rparr>,
      \<lparr>imageX = Num 0, imageY = Num 1, lon = Num 10, lat = Num 21\<rparr>]"

text \<open>Three points on the image x-axis.\<close>

definition collinear3 :: "refpoint list" where
  "collinear3 =
     [\<lparr>imageX = Num 0, imageY = Num 0, lon = Num 0, lat = Num 0\<rparr>,
      \<lparr>imageX = Num 1, imageY = Num 0, lon = Num 1, lat = Num 0\<rparr>,
      \<lparr>imageX = Num 2, imageY = Num 0, lon = Num 2, lat = Num 0\<rparr>]"

text \<open>Two points on the same pixel with different geographic coordinates.\<close>

definition coincident2 :: "refpoint list" where
  "coincident2 =
     [\<lparr>imageX = Num 0, imageY = Num 0, lon = Num 0, lat = Num 0\<rparr>,
      \<lparr>imageX = Num 0, imageY = Num 0, lon = Num 1, lat = Num 0\<rparr>]"

text \<open>Scenario C: an affine model with proportional rows.\<close>

definition scenarioC :: affine where
  "scenarioC = \<lparr>a = Num 1, b = Num 2, c = Num 0, d = Num 2, e = Num 4, f = Num 0\<rparr>"

text \<open>A similarity model of scale 0.\<close>

definition zero_scale :: similarity where
  "zero_scale = \<lparr>scale = Num 0, rotation = Num 0, tx = Num 0, ty = Num 0\<rparr>"

text \<open>What the least-squares code returns on scenario B.\<close>

definition fitted_B :: affine where
  "fitted_B = \<lparr>a = Num 1, b = Num 31, c = Num (- (1 / 3)),
                d = Num 0, e = Num 62, f = Num (- (1 / 3))\<rparr>"

text \<open>The affine model that carries each pixel of scenario B to its coordinates.\<close>

definition offset_B :: affine where
  "offset_B = \<lparr>a = Num 1, b = Num 0, c = Num 10, d = Num 0, e = Num 1, f = Num 20\<rparr>"

text \<open>The same model as a matrix object in the layout of the library.\<close>

definition offset_matrix :: affine where
  "offset_matrix = \<lparr>a = Num 1, b = Num 0, c = Num 0, d = Num 1, e = Num 10, f = Num 20\<rparr>"

text \<open>Two invertible models: a quarter turn with scale 2, and a shear.\<close>

definition quarter_turn :: similarity where
  "quarter_turn = \<lparr>scale = Num 2, rotation = Num (pi / 2), tx = Num 1, ty = Num 1\<rparr>"

definition shear :: affine where
  "shear = \<lparr>a = Num 2, b = Num 1, c = Num 10, d = Num 0, e = Num 1, f = Num 20\<rparr>"

text \<open>
  Three pixels on one line, \<open>y = (1273 x - 7642816) / 225\<close>, of a large image: the
  product \<open>sum_x2 * sum_y2\<close> exceeds \<open>2 ^ 53\<close>.
\<close>

definition collinear_large :: "refpoint list" where
  "collinear_large =
     [\<lparr>imageX = Num 6592, imageY = Num 3328, lon = Num 0, lat = Num 0\<rparr>,
      \<lparr>imageX = Num 6817, imageY = Num 4601, lon = Num 1, lat = Num 1\<rparr>,
      \<lparr>imageX = Num 7042, imageY = Num 5874, lon = Num 2, lat = Num 2\<rparr>]"

text \<open>
  An affine model whose determinant \<open>9 * e\<close> is below \<open>1 / 10 ^ 10\<close> and rounds to the
  double \<^verbatim>\<open>1e-10\<close>; its \<open>e\<close> is the double \<^verbatim>\<open>1.1111111111111111e-11\<close>.
\<close>

definition near_singular :: affine where
  "near_singular = \<lparr>a = Num 9, b = Num 0, c = Num 0,
                     d = Num 0, e = Num (6877444662696557 / 2 ^ 89), f = Num 0\<rparr>"

text \<open>An affine model with equal rows whose products overflow.\<close>

definition huge :: real where
  "huge = 2 ^ 600"

definition huge_rows :: affine where
  "huge_rows = \<lparr>a = Num huge, b = Num huge, c = Num 0, d = Num huge, e = Num huge, f = Num 0\<rparr>"

text \<open>The identity with the offset \<open>2 ^ 53\<close> in longitude.\<close>

definition big_offset :: affine where
  "big_offset = \<lparr>a = Num 1, b = Num 0, c = Num (2 ^ 53), d = Num 0, e = Num 1, f = Num 0\<rparr>"

section \<open>Arithmetic of finite numbers\<close>

lemma Num_minus [simp]: "Num x - Num y = Num (x - y)"
  by (simp add: minus_number_def)

lemma isFinite_iff: "isFinite u \<longleftrightarrow> (\<exists>x. u = Num x)"
  by (cases u) simp_all

lemma divide_by_zero_not_finite: "\<not> isFinite (u / Num 0)"
  by (cases u) simp_all

lemma finite_pointE:
  assumes "finite_point p"
  obtains x y g h where "p = \<lparr>imageX = Num x, imageY = Num y, lon = Num g, lat = Num h\<rparr>"
  using assms by (cases p) (auto simp: finite_point_def isFinite_iff)

lemma sqrt_10000: "sqrt 10000 = 100"
  by (rule real_sqrt_unique) simp_all

lemma sum_squares_not_neg: "\<not> (u::real) * u + v * v < 0"
  by (simp add: not_less)

lemma sum_squares_pos:
  fixes u v :: real
  assumes "u \<noteq> 0 \<or> v \<noteq> 0"
  shows "0 < sqrt (u * u + v * v)"
proof -
  have "u * u + v * v \<noteq> 0"
    using assms by (simp add: sum_squares_eq_zero_iff)
  moreover have "0 \<le> u * u + v * v"
    by simp
  ultimately have "0 < u * u + v * v"
    by linarith
  then show ?thesis by simp
qed

section \<open>Rounding\<close>

lemma pow2_powr: "pow2 k = 2 powr (real_of_int k)"
  by (simp add: pow2_def powr_real_of_int inverse_eq_divide)

lemma pow2_pos: "0 < pow2 k"
  by (simp add: pow2_powr)

lemma pow2_add: "pow2 (j + k) = pow2 j * pow2 k"
  by (simp add: pow2_powr powr_add)

lemma pow2_mono: "j \<le> k \<Longrightarrow> pow2 j \<le> pow2 k"
  by (simp add: pow2_powr)

lemma pow2_nat: "0 \<le> k \<Longrightarrow> pow2 k = of_int (2 ^ nat k)"
  by (simp add: pow2_def)

lemma floor_log2_bounds:
  assumes "x \<noteq> 0"
  shows "pow2 \<lfloor>log 2 \<bar>x\<bar>\<rfloor> \<le> \<bar>x\<bar>" and "\<bar>x\<bar> < pow2 (\<lfloor>log 2 \<bar>x\<bar>\<rfloor> + 1)"
proof -
  have pos: "0 < \<bar>x\<bar>" using assms by simp
  have "2 powr (real_of_int \<lfloor>log 2 \<bar>x\<bar>\<rfloor>) \<le> \<bar>x\<bar>
        \<and> \<bar>x\<bar> < 2 powr (real_of_int (\<lfloor>log 2 \<bar>x\<bar>\<rfloor> + 1))"
    using floor_log_eq_powr_iff [OF pos, of 2 "\<lfloor>log 2 \<bar>x\<bar>\<rfloor>"] by simp
  then show "pow2 \<lfloor>log 2 \<bar>x\<bar>\<rfloor> \<le> \<bar>x\<bar>" and "\<bar>x\<bar> < pow2 (\<lfloor>log 2 \<bar>x\<bar>\<rfloor> + 1)"
    by (simp_all add: pow2_powr)
qed

lemma floor_log2_eq:
  assumes "pow2 k \<le> \<bar>x\<bar>" and "\<bar>x\<bar> < pow2 (k + 1)"
  shows "\<lfloor>log 2 \<bar>x\<bar>\<rfloor> = k"
proof -
  have pos: "0 < \<bar>x\<bar>"
    using assms(1) pow2_pos [of k] by linarith
  show ?thesis
    using assms floor_log_eq_powr_iff [OF pos, of 2 k] by (simp add: pow2_powr)
qed

lemma exponent_eq:
  assumes "pow2 k \<le> \<bar>x\<bar>" and "\<bar>x\<bar> < pow2 (k + 1)" and "- 1022 \<le> k"
  shows "exponent x = k"
  using floor_log2_eq [OF assms(1,2)] assms(3) by (simp add: exponent_def)

lemma round_half_even_of_int: "round_half_even (of_int n) = n"
  by (simp add: round_half_even_def)

lemma round_half_even_ge_floor: "\<lfloor>q\<rfloor> \<le> round_half_even q"
  by (simp add: round_half_even_def Let_def)

text \<open>The rounding of a number whose binade is known.\<close>

lemma fl_eval:
  assumes "pow2 k \<le> \<bar>x\<bar>" and "\<bar>x\<bar> < pow2 (k + 1)" and "- 1022 \<le> k"
  shows "fl x =
     (let y = of_int (round_half_even (x / pow2 (k - 52))) * pow2 (k - 52)
      in if pow2 1024 \<le> y then PosInf else if y \<le> - pow2 1024 then NegInf else Num y)"
proof -
  have "x \<noteq> 0"
    using assms(1) pow2_pos [of k] by auto
  then show ?thesis
    by (simp add: fl_def exponent_eq [OF assms] Let_def)
qed

lemma fl_int:
  assumes "\<bar>n\<bar> \<le> 2 ^ 53"
  shows "fl (of_int n) = Num (of_int n)"
proof (cases "n = 0")
  case True
  then show ?thesis by (simp add: fl_def)
next
  case False
  define x :: real where "x = of_int n"
  define k where "k = \<lfloor>log 2 \<bar>x\<bar>\<rfloor>"
  have x0: "x \<noteq> 0" using False by (simp add: x_def)
  have lo: "pow2 k \<le> \<bar>x\<bar>" and hi: "\<bar>x\<bar> < pow2 (k + 1)"
    unfolding k_def using floor_log2_bounds [OF x0] by auto
  have x1: "1 \<le> \<bar>x\<bar>" using False by (simp add: x_def)
  have xm: "\<bar>x\<bar> \<le> pow2 53"
  proof -
    have "\<bar>x\<bar> = of_int \<bar>n\<bar>" by (simp add: x_def)
    also have "\<dots> \<le> of_int (2 ^ 53)" using assms by (simp only: of_int_le_iff)
    finally show ?thesis by (simp add: pow2_def)
  qed
  have k0: "0 \<le> k"
  proof (rule ccontr)
    assume "\<not> 0 \<le> k"
    then have "k + 1 \<le> 0" by simp
    then have "pow2 (k + 1) \<le> pow2 0" by (rule pow2_mono)
    then show False using hi x1 by (simp add: pow2_def)
  qed
  have k53: "k \<le> 53"
  proof (rule ccontr)
    assume "\<not> k \<le> 53"
    then have "54 \<le> k" by simp
    then have "pow2 54 \<le> pow2 k" by (rule pow2_mono)
    moreover have "pow2 53 < pow2 54" by (simp add: pow2_def)
    ultimately show False using lo xm by linarith
  qed
  have ex: "exponent x = k"
    using exponent_eq [OF lo hi] k0 by simp
  have int_q: "\<exists>m. x / pow2 (k - 52) = of_int m"
  proof (cases "k \<le> 52")
    case True
    have "pow2 (k - 52) * pow2 (52 - k) = 1"
      using pow2_add [of "k - 52" "52 - k"] by (simp add: pow2_def)
    then have "x / pow2 (k - 52) = x * pow2 (52 - k)"
      using pow2_pos [of "k - 52"] by (simp add: field_simps)
    also have "\<dots> = of_int (n * 2 ^ nat (52 - k))"
      using True by (simp add: x_def pow2_nat)
    finally show ?thesis by blast
  next
    case False
    with k53 have k: "k = 53" by simp
    have "\<bar>x\<bar> = pow2 53" using lo xm k by simp
    then have "\<bar>n\<bar> = 2 ^ 53"
      using assms xm by (simp add: x_def pow2_def)
    then have "n = 2 ^ 53 \<or> n = - (2 ^ 53)" by linarith
    then have "x / pow2 (k - 52) = of_int (n div 2)"
      by (auto simp: x_def k pow2_def)
    then show ?thesis by blast
  qed
  then obtain m where m: "x / pow2 (k - 52) = of_int m" by blast
  have requot: "of_int m * pow2 (k - 52) = x"
    using m pow2_pos [of "k - 52"] by (simp add: field_simps)
  have small: "\<not> pow2 1024 \<le> x" and "\<not> x \<le> - pow2 1024"
  proof -
    have "pow2 53 < pow2 1024" by (simp add: pow2_def)
    then show "\<not> pow2 1024 \<le> x" and "\<not> x \<le> - pow2 1024" using xm by linarith+
  qed
  have "fl x = Num x"
    using x0 small \<open>\<not> x \<le> - pow2 1024\<close>
    by (simp add: fl_def ex Let_def m round_half_even_of_int requot)
  then show ?thesis by (simp add: x_def)
qed

lemma fl_overflow:
  assumes "pow2 1024 \<le> x"
  shows "fl x = PosInf"
proof -
  have xpos: "0 < x" using assms pow2_pos [of 1024] by linarith
  then have x0: "x \<noteq> 0" by simp
  define k where "k = \<lfloor>log 2 \<bar>x\<bar>\<rfloor>"
  have lo: "pow2 k \<le> x" and hi: "x < pow2 (k + 1)"
    unfolding k_def using floor_log2_bounds [OF x0] xpos by auto
  have k: "1024 \<le> k"
  proof (rule ccontr)
    assume "\<not> 1024 \<le> k"
    then have "k + 1 \<le> 1024" by simp
    then have "pow2 (k + 1) \<le> pow2 1024" by (rule pow2_mono)
    then show False using hi assms by linarith
  qed
  have ex: "exponent x = k"
    using k by (simp add: exponent_def k_def)
  define ulp where "ulp = pow2 (k - 52)"
  have ulp: "0 < ulp" by (simp add: ulp_def pow2_pos)
  have split: "pow2 k = of_int (2 ^ 52) * ulp"
    using pow2_add [of 52 "k - 52"] by (simp add: ulp_def pow2_def)
  have "of_int (2 ^ 52) \<le> x / ulp"
    using lo ulp by (simp add: split field_simps)
  then have "2 ^ 52 \<le> \<lfloor>x / ulp\<rfloor>"
    by (simp only: le_floor_iff)
  then have "2 ^ 52 \<le> round_half_even (x / ulp)"
    using round_half_even_ge_floor [of "x / ulp"] by linarith
  then have "of_int (2 ^ 52) * ulp \<le> of_int (round_half_even (x / ulp)) * ulp"
    using ulp by (simp only: mult_le_cancel_right_pos of_int_le_iff)
  then have "pow2 k \<le> of_int (round_half_even (x / ulp)) * ulp"
    by (simp only: split)
  moreover have "pow2 1024 \<le> pow2 k"
    using k by (rule pow2_mono)
  ultimately have "pow2 1024 \<le> of_int (round_half_even (x / ulp)) * ulp"
    by linarith
  then show ?thesis
    using x0 by (simp add: fl_def ex Let_def ulp_def)
qed

text \<open>Integers up to \<open>2 ^ 53\<close> are doubles.\<close>

lemma fl_0 [simp]: "fl 0 = Num 0"
  by (simp add: fl_def)

lemma fl_1 [simp]: "fl 1 = Num 1"
  using fl_int [of 1] by simp

lemma fl_numeral: "numeral w \<le> (2::real) ^ 53 \<Longrightarrow> fl (numeral w) = Num (numeral w)"
proof -
  assume "numeral w \<le> (2::real) ^ 53"
  then have "real_of_int (numeral w) \<le> real_of_int (2 ^ 53)" by simp
  then have "(numeral w :: int) \<le> 2 ^ 53" by (simp only: of_int_le_iff)
  then have "\<bar>numeral w :: int\<bar> \<le> 2 ^ 53" by simp
  from fl_int [OF this] show ?thesis by simp
qed

lemma fl_neg_numeral:
  "numeral w \<le> (2::real) ^ 53 \<Longrightarrow> fl (- numeral w) = Num (- numeral w)"
proof -
  assume "numeral w \<le> (2::real) ^ 53"
  then have "real_of_int (numeral w) \<le> real_of_int (2 ^ 53)" by simp
  then have "(numeral w :: int) \<le> 2 ^ 53" by (simp only: of_int_le_iff)
  then have "\<bar>- numeral w :: int\<bar> \<le> 2 ^ 53" by simp
  from fl_int [OF this] show ?thesis by simp
qed

lemmas fl_ops = fl_add_def fl_sub_def fl_mul_def fl_div_def cross_fl_def expand_fl_def
  fl_numeral fl_neg_numeral

lemma divide_NaN [simp]: "u / NaN = NaN"
  by (cases u) simp_all

text \<open>The double \<^verbatim>\<open>1e-10\<close> is \<open>7737125245533627 / 2 ^ 86\<close>, a little above \<open>1 / 10 ^ 10\<close>.\<close>

lemma tolerance_fl_value: "tolerance_fl = Num (7737125245533627 / 2 ^ 86)"
proof -
  have "fl (1 / 10 ^ 10) =
     (let y = of_int (round_half_even ((1 / 10 ^ 10) / pow2 (- 34 - 52))) * pow2 (- 34 - 52)
      in if pow2 1024 \<le> y then PosInf else if y \<le> - pow2 1024 then NegInf else Num y)"
    by (rule fl_eval) (simp_all add: pow2_def)
  then show ?thesis
    by (simp add: tolerance_fl_def pow2_def round_half_even_def Let_def)
qed

section \<open>The least-squares fit on scenario B\<close>

lemma accumulate_scenarioB:
  "accumulate scenarioB =
     \<lparr>sum_x = Num 1, sum_y = Num 1, sum_x2 = Num 1, sum_y2 = Num 1, sum_xy = Num 0,
      sum_lon = Num 31, sum_lat = Num 61, sum_x_lon = Num 11, sum_y_lon = Num 10,
      sum_x_lat = Num 20, sum_y_lat = Num 21\<rparr>"
  by (simp add: accumulate_def scenarioB_def add_point_def sums0_def)

lemma computeAffineTransform_scenarioB: "computeAffineTransform scenarioB = Inr fitted_B"
  unfolding computeAffineTransform_def accumulate_scenarioB
  by (simp add: scenarioB_def normal_det_def tolerance_def Let_def fitted_B_def)

text \<open>
  C1. The specification expects the fit of scenario B to be
  \<open>a = 1, b = 0, c = 10, d = 0, e = 1, f = 20\<close> and pixel \<open>(5, 5)\<close> to map to \<open>(15, 25)\<close>.
  The last term of the code's numerators of \<open>b\<close> and \<open>e\<close> is
  \<open>sum_y * (sum_x * sum_lon - sum_x2 * sum_lon)\<close>, where Cramer's rule has
  \<open>sum_lon * (sum_x * sum_xy - sum_y * sum_x2)\<close>.  On scenario B the code returns
  \<open>b = 31\<close>, \<open>e = 62\<close> and \<open>c = f = -1/3\<close>, and maps pixel \<open>(5, 5)\<close> to
  \<open>(479/3, 929/3)\<close>.
\<close>

theorem scenarioB_fit_evaluated:
  "computeAffineTransform scenarioB
     = Inr \<lparr>a = Num 1, b = Num 31, c = Num (- (1 / 3)),
            d = Num 0, e = Num 62, f = Num (- (1 / 3))\<rparr>
   \<and> (case computeAffineTransform scenarioB of
         Inl err \<Rightarrow> Inl err
       | Inr m \<Rightarrow> imageToGeo (Num 5) (Num 5) (AffineT m) ''affine'')
     = Inr (Num (479 / 3), Num (929 / 3))"
  by (simp add: computeAffineTransform_scenarioB fitted_B_def imageToGeo_def affine_of_def Let_def)

section \<open>Degenerate inputs that the code rejects\<close>

text \<open>
  On finite sums the code's \<open>det\<close> is the determinant of the matrix of the normal
  equations, rows \<open>(sum_x2, sum_xy, sum_x)\<close>, \<open>(sum_xy, sum_y2, sum_y)\<close> and
  \<open>(sum_x, sum_y, n)\<close>, expanded along its first row.
\<close>

lemma normal_det_cofactors:
  "normal_det (Num n)
     \<lparr>sum_x = Num sx, sum_y = Num sy, sum_x2 = Num sxx, sum_y2 = Num syy, sum_xy = Num sxy,
      sum_lon = l1, sum_lat = l2, sum_x_lon = l3, sum_y_lon = l4, sum_x_lat = l5,
      sum_y_lat = l6\<rparr>
   = Num (sxx * (syy * n - sy * sy) - sxy * (sxy * n - sy * sx) + sx * (sxy * sy - syy * sx))"
  by (simp add: normal_det_def algebra_simps)

lemma accumulate_collinear3:
  "accumulate collinear3 =
     \<lparr>sum_x = Num 3, sum_y = Num 0, sum_x2 = Num 5, sum_y2 = Num 0, sum_xy = Num 0,
      sum_lon = Num 3, sum_lat = Num 0, sum_x_lon = Num 5, sum_y_lon = Num 0,
      sum_x_lat = Num 0, sum_y_lat = Num 0\<rparr>"
  by (simp add: accumulate_def collinear3_def add_point_def sums0_def)

lemma normal_det_collinear3: "normal_det (Num 3) (accumulate collinear3) = Num 0"
  unfolding accumulate_collinear3 by (simp add: normal_det_def)

lemma accumulate_fl_collinear3:
  "accumulate_fl collinear3 =
     \<lparr>sum_x = Num 3, sum_y = Num 0, sum_x2 = Num 5, sum_y2 = Num 0, sum_xy = Num 0,
      sum_lon = Num 3, sum_lat = Num 0, sum_x_lon = Num 5, sum_y_lon = Num 0,
      sum_x_lat = Num 0, sum_y_lat = Num 0\<rparr>"
  by (simp add: accumulate_fl_def collinear3_def add_point_fl_def sums0_def fl_ops)

lemma normal_det_fl_collinear3: "normal_det_fl (Num 3) (accumulate_fl collinear3) = Num 0"
  unfolding accumulate_fl_collinear3 by (simp add: normal_det_fl_def fl_ops)

text \<open>
  C4, as the code has it.  A list of three or more points whose normal-equations
  determinant, as the code computes it in double arithmetic from the rounded sums, has
  magnitude below the double \<^verbatim>\<open>1e-10\<close> makes \<open>computeAffineTransform\<close> fail with the
  collinearity error: no model is produced and nothing is divided by the determinant.
\<close>

theorem computed_det_small_rejected:
  assumes "3 \<le> length referencePoints"
    and "js_lt (Math_abs (normal_det_fl (fl (real (length referencePoints)))
                 (accumulate_fl referencePoints))) tolerance_fl"
  shows "computeAffineTransform_fl referencePoints = Inl CollinearPoints"
  using assms by (simp add: computeAffineTransform_fl_def Let_def)

theorem computed_det_small_rejected_witness:
  "3 \<le> length collinear3
   \<and> js_lt (Math_abs (normal_det_fl (fl (real (length collinear3))) (accumulate_fl collinear3)))
        tolerance_fl
   \<and> computeAffineTransform_fl collinear3 = Inl CollinearPoints"
proof -
  have len: "length collinear3 = 3"
    by (simp add: collinear3_def)
  have small: "js_lt (Math_abs (normal_det_fl (fl (real (length collinear3)))
                 (accumulate_fl collinear3))) tolerance_fl"
    by (simp add: len fl_numeral normal_det_fl_collinear3 tolerance_fl_value)
  have three: "3 \<le> length collinear3"
    by (simp add: len)
  show ?thesis
    using three small computed_det_small_rejected [OF three small] by simp
qed

subsection \<open>Collinear points that the code does not reject\<close>

lemma accumulate_collinear_large:
  "accumulate collinear_large =
     \<lparr>sum_x = Num 20451, sum_y = Num 13803, sum_x2 = Num 139515717, sum_y2 = Num 66748661,
      sum_xy = Num 94667901,
      sum_lon = Num 3, sum_lat = Num 3, sum_x_lon = Num 20901, sum_y_lon = Num 16349,
      sum_x_lat = Num 20901, sum_y_lat = Num 16349\<rparr>"
  by (simp add: accumulate_def collinear_large_def add_point_def sums0_def)

lemma accumulate_fl_collinear_large:
  "accumulate_fl collinear_large =
     \<lparr>sum_x = Num 20451, sum_y = Num 13803, sum_x2 = Num 139515717, sum_y2 = Num 66748661,
      sum_xy = Num 94667901,
      sum_lon = Num 3, sum_lat = Num 3, sum_x_lon = Num 20901, sum_y_lon = Num 16349,
      sum_x_lat = Num 20901, sum_y_lat = Num 16349\<rparr>"
  by (simp add: accumulate_fl_def collinear_large_def add_point_fl_def sums0_def fl_ops)

text \<open>
  The three operations that round: \<open>sum_x2 * sum_y2\<close> in \<open>det\<close>, and \<open>b * sum_y\<close> and
  the subtraction of it in \<open>c_val\<close> and \<open>f_val\<close>.
\<close>

lemma fl_product_rounds: "fl 9312487298204937 = Num 9312487298204936"
proof -
  have "fl 9312487298204937 =
     (let y = of_int (round_half_even (9312487298204937 / pow2 (53 - 52))) * pow2 (53 - 52)
      in if pow2 1024 \<le> y then PosInf else if y \<le> - pow2 1024 then NegInf else Num y)"
    by (rule fl_eval) (simp_all add: pow2_def)
  then show ?thesis
    by (simp add: pow2_def round_half_even_def Let_def)
qed

lemma fl_rounds_down_2: "fl 26719446536006994 = Num 26719446536006992"
proof -
  have "fl 26719446536006994 =
     (let y = of_int (round_half_even (26719446536006994 / pow2 (54 - 52))) * pow2 (54 - 52)
      in if pow2 1024 \<le> y then PosInf else if y \<le> - pow2 1024 then NegInf else Num y)"
    by (rule fl_eval) (simp_all add: pow2_def)
  then show ?thesis
    by (simp add: pow2_def round_half_even_def Let_def)
qed

lemma fl_rounds_up_neg: "fl (- 26719446536006989) = Num (- 26719446536006988)"
proof -
  have "fl (- 26719446536006989) =
     (let y = of_int (round_half_even (- 26719446536006989 / pow2 (54 - 52))) * pow2 (54 - 52)
      in if pow2 1024 \<le> y then PosInf else if y \<le> - pow2 1024 then NegInf else Num y)"
    by (rule fl_eval) (simp_all add: pow2_def)
  then show ?thesis
    by (simp add: pow2_def round_half_even_def Let_def)
qed

lemma normal_det_fl_collinear_large:
  "normal_det_fl (Num 3) (accumulate_fl collinear_large) = Num (- 3)"
  unfolding accumulate_fl_collinear_large
  by (simp add: normal_det_fl_def fl_ops fl_product_rounds)

text \<open>
  C4 as stated fails on three collinear pixels of a large image.  The determinant of
  their normal equations is 0, but \<open>sum_x2 * sum_y2 = 9312487298204937\<close> is not a
  double: the code computes \<open>det = -3\<close>, its test does not fire, and it returns a model
  whose coefficients are quotients by \<open>-3\<close>.
\<close>

theorem collinear_large_not_rejected:
  "normal_det (Num 3) (accumulate collinear_large) = Num 0
   \<and> normal_det_fl (Num 3) (accumulate_fl collinear_large) = Num (- 3)
   \<and> computeAffineTransform_fl collinear_large
       = Inr \<lparr>a = Num 0, b = Num 1935770958198, c = Num (- 8906482178668996),
              d = Num 0, e = Num 1935770958198, f = Num (- 8906482178668996)\<rparr>"
proof (intro conjI)
  show "normal_det (Num 3) (accumulate collinear_large) = Num 0"
    unfolding accumulate_collinear_large by (simp add: normal_det_def)
  show "normal_det_fl (Num 3) (accumulate_fl collinear_large) = Num (- 3)"
    by (rule normal_det_fl_collinear_large)
  have len: "length collinear_large = 3"
    by (simp add: collinear_large_def)
  show "computeAffineTransform_fl collinear_large
       = Inr \<lparr>a = Num 0, b = Num 1935770958198, c = Num (- 8906482178668996),
              d = Num 0, e = Num 1935770958198, f = Num (- 8906482178668996)\<rparr>"
    unfolding computeAffineTransform_fl_def len
    by (simp add: fl_numeral normal_det_fl_collinear_large tolerance_fl_value Let_def)
      (simp add: accumulate_fl_collinear_large fl_ops fl_product_rounds fl_rounds_down_2
        fl_rounds_up_neg)
qed

section \<open>Singular affine models\<close>

text \<open>
  C5, as the code has it.  For an affine model whose determinant \<open>a*e - b*d\<close>, as the
  code computes it in double arithmetic from the two rounded products, has magnitude
  below the double \<^verbatim>\<open>1e-10\<close>, \<open>geoToImage\<close> fails with the singularity error for
  every geographic input; it returns no coordinates.
\<close>

theorem computed_det_singular_rejected:
  assumes "js_lt (Math_abs (cross_fl (a m) (e m) (b m) (d m))) tolerance_fl"
  shows "geoToImage_affine_fl glon glat m = Inl SingularTransform"
  using assms by (simp add: geoToImage_affine_fl_def Let_def)

theorem computed_det_singular_rejected_witness:
  "js_lt (Math_abs (cross_fl (a scenarioC) (e scenarioC) (b scenarioC) (d scenarioC)))
     tolerance_fl
   \<and> geoToImage_affine_fl (Num 7) (Num 9) scenarioC = Inl SingularTransform"
proof -
  have small: "js_lt (Math_abs (cross_fl (a scenarioC) (e scenarioC) (b scenarioC) (d scenarioC)))
     tolerance_fl"
    by (simp add: scenarioC_def fl_ops tolerance_fl_value)
  show ?thesis
    using small computed_det_singular_rejected [OF small, of "Num 7" "Num 9"] by simp
qed

subsection \<open>A determinant below the tolerance that rounds to it\<close>

lemma fl_e: "fl (6877444662696557 / 2 ^ 89) = Num (6877444662696557 / 2 ^ 89)"
proof -
  have "fl (6877444662696557 / 2 ^ 89) =
     (let y = of_int (round_half_even ((6877444662696557 / 2 ^ 89) / pow2 (- 37 - 52)))
                * pow2 (- 37 - 52)
      in if pow2 1024 \<le> y then PosInf else if y \<le> - pow2 1024 then NegInf else Num y)"
    by (rule fl_eval) (simp_all add: pow2_def)
  then show ?thesis
    by (simp add: pow2_def round_half_even_def Let_def)
qed

lemma fl_tol: "fl (7737125245533627 / 2 ^ 86) = Num (7737125245533627 / 2 ^ 86)"
proof -
  have "fl (7737125245533627 / 2 ^ 86) =
     (let y = of_int (round_half_even ((7737125245533627 / 2 ^ 86) / pow2 (- 34 - 52)))
                * pow2 (- 34 - 52)
      in if pow2 1024 \<le> y then PosInf else if y \<le> - pow2 1024 then NegInf else Num y)"
    by (rule fl_eval) (simp_all add: pow2_def)
  then show ?thesis
    by (simp add: pow2_def round_half_even_def Let_def)
qed

lemma fl_9e: "fl (9 * (6877444662696557 / 2 ^ 89)) = Num (7737125245533627 / 2 ^ 86)"
proof -
  have "fl (9 * (6877444662696557 / 2 ^ 89)) =
     (let y = of_int (round_half_even ((9 * (6877444662696557 / 2 ^ 89)) / pow2 (- 34 - 52)))
                * pow2 (- 34 - 52)
      in if pow2 1024 \<le> y then PosInf else if y \<le> - pow2 1024 then NegInf else Num y)"
    by (rule fl_eval) (simp_all add: pow2_def)
  then show ?thesis
    by (simp add: pow2_def round_half_even_def Let_def)
qed

lemma fl_x: "fl ((6877444662696557 / 2 ^ 89) / (7737125245533627 / 2 ^ 86))
               = Num (2001599834386887 / 2 ^ 54)"
proof -
  have "fl ((6877444662696557 / 2 ^ 89) / (7737125245533627 / 2 ^ 86)) =
     (let y = of_int (round_half_even
                 (((6877444662696557 / 2 ^ 89) / (7737125245533627 / 2 ^ 86)) / pow2 (- 4 - 52)))
                * pow2 (- 4 - 52)
      in if pow2 1024 \<le> y then PosInf else if y \<le> - pow2 1024 then NegInf else Num y)"
    by (rule fl_eval) (simp_all add: pow2_def)
  then show ?thesis
    by (simp add: pow2_def round_half_even_def Let_def)
qed

lemma fl_y: "fl (9 / (7737125245533627 / 2 ^ 86)) = Num 90000000000"
proof -
  have "fl (9 / (7737125245533627 / 2 ^ 86)) =
     (let y = of_int (round_half_even ((9 / (7737125245533627 / 2 ^ 86)) / pow2 (36 - 52)))
                * pow2 (36 - 52)
      in if pow2 1024 \<le> y then PosInf else if y \<le> - pow2 1024 then NegInf else Num y)"
    by (rule fl_eval) (simp_all add: pow2_def)
  then show ?thesis
    by (simp add: pow2_def round_half_even_def Let_def)
qed

text \<open>
  C5 as stated fails on the model \<open>a = 9\<close>, \<open>e = 1.1111111111111111e-11\<close>,
  \<open>b = d = 0\<close>.  Its determinant \<open>9 * e\<close> is below \<open>1 / 10 ^ 10\<close>, but the product
  rounds to the double \<^verbatim>\<open>1e-10\<close>, which is not below itself: the test does not fire,
  and for the input \<open>(1, 1)\<close> the code returns the quotients by that determinant,
  \<open>(0.1111111111111111, 90000000000)\<close>.
\<close>

theorem near_singular_not_rejected:
  "js_lt (Math_abs (a near_singular * e near_singular - b near_singular * d near_singular))
     tolerance
   \<and> geoToImage_affine_fl (Num 1) (Num 1) near_singular
       = Inr (Num (2001599834386887 / 2 ^ 54), Num 90000000000)"
proof
  show "js_lt (Math_abs (a near_singular * e near_singular - b near_singular * d near_singular))
     tolerance"
    by (simp add: near_singular_def tolerance_def)
  have det: "cross_fl (Num 9) (Num (6877444662696557 / 2 ^ 89)) (Num 0) (Num 0)
               = Num (7737125245533627 / 2 ^ 86)"
    using fl_9e fl_tol by (simp add: cross_fl_def fl_mul_def fl_sub_def)
  have num_x: "cross_fl (Num (6877444662696557 / 2 ^ 89)) (Num 1) (Num 0) (Num 1)
               = Num (6877444662696557 / 2 ^ 89)"
    using fl_e by (simp add: cross_fl_def fl_mul_def fl_sub_def)
  have num_y: "fl_add (fl_mul (- Num 0) (Num 1)) (fl_mul (Num 9) (Num 1)) = Num 9"
    by (simp add: fl_ops)
  have qx: "fl_div (Num (6877444662696557 / 2 ^ 89)) (Num (7737125245533627 / 2 ^ 86))
              = Num (2001599834386887 / 2 ^ 54)"
    using fl_x by (simp add: fl_div_def)
  have qy: "fl_div (Num 9) (Num (7737125245533627 / 2 ^ 86)) = Num 90000000000"
    using fl_y by (simp add: fl_div_def)
  have shift: "fl_sub (Num 1) (Num 0) = Num 1"
    by (simp add: fl_ops)
  have guard: "\<not> js_lt (Math_abs (Num (7737125245533627 / 2 ^ 86))) tolerance_fl"
    by (simp add: tolerance_fl_value)
  show "geoToImage_affine_fl (Num 1) (Num 1) near_singular
       = Inr (Num (2001599834386887 / 2 ^ 54), Num 90000000000)"
    unfolding geoToImage_affine_fl_def near_singular_def
    by (simp only: affine.simps Let_def det guard shift num_x num_y qx qy if_False)
qed

text \<open>
  Rows that are equal, so that the determinant is 0, and so large that both products
  overflow: the code computes \<open>Infinity - Infinity\<close>, the comparison with NaN is false,
  and NaN coordinates are returned.
\<close>

lemma fl_mul_huge: "fl_mul (Num huge) (Num huge) = PosInf"
proof -
  have "pow2 1024 \<le> huge * huge"
    by (simp add: pow2_def huge_def)
  then show ?thesis
    by (simp add: fl_mul_def fl_overflow)
qed

lemma huge_rows_not_rejected:
  "a huge_rows * e huge_rows - b huge_rows * d huge_rows = Num 0
   \<and> geoToImage_affine_fl (Num 1) (Num 1) huge_rows = Inr (NaN, NaN)"
proof
  show "a huge_rows * e huge_rows - b huge_rows * d huge_rows = Num 0"
    by (simp add: huge_rows_def)
  have det: "cross_fl (Num huge) (Num huge) (Num huge) (Num huge) = NaN"
    by (simp add: cross_fl_def fl_mul_huge fl_sub_def minus_number_def)
  show "geoToImage_affine_fl (Num 1) (Num 1) huge_rows = Inr (NaN, NaN)"
    unfolding geoToImage_affine_fl_def huge_rows_def
    by (simp add: det Let_def fl_div_def)
qed

section \<open>The similarity fit on scenario A\<close>

text \<open>
  C9. Fitting the two points of scenario A gives scale \<open>1/100\<close> and rotation \<open>\<pi>/2\<close>
  (and translation 0), and the fitted model maps pixel \<open>(50, 0)\<close> to \<open>(0, 1/2)\<close>.
\<close>

theorem scenarioA_fit:
  "computeSimilarityTransform scenarioA
     = Inr \<lparr>scale = Num (1 / 100), rotation = Num (pi / 2), tx = Num 0, ty = Num 0\<rparr>
   \<and> (case computeSimilarityTransform scenarioA of
         Inl err \<Rightarrow> Inl err
       | Inr m \<Rightarrow> imageToGeo (Num 50) (Num 0) (SimilarityT m) ''similarity'')
     = Inr (Num 0, Num (1 / 2))"
proof -
  have fit: "computeSimilarityTransform scenarioA
     = Inr \<lparr>scale = Num (1 / 100), rotation = Num (pi / 2), tx = Num 0, ty = Num 0\<rparr>"
    by (simp add: computeSimilarityTransform_def scenarioA_def Let_def atan2_def sqrt_10000)
  show ?thesis
    unfolding fit by (simp add: imageToGeo_def similarity_of_def Let_def)
qed

section \<open>Model selection\<close>

lemma computeSimilarityTransform_two:
  "length ps = 2 \<Longrightarrow> \<exists>m. computeSimilarityTransform ps = Inr m"
  by (cases ps; cases "tl ps") (auto simp: computeSimilarityTransform_def Let_def)

lemma computeAffineTransform_three:
  "3 \<le> length ps \<Longrightarrow>
     computeAffineTransform ps = Inl CollinearPoints \<or> (\<exists>m. computeAffineTransform ps = Inr m)"
  by (simp add: computeAffineTransform_def Let_def)

text \<open>
  C8, as the code has it. \<open>calculateTransform\<close> returns \<open>null\<close> for a missing list and
  for a list of fewer than two points; for a list of exactly two points it returns the
  similarity fit of those points, tagged \<open>similarity\<close>; for a list of three or more
  points it hands all of them to the affine fitter and either fails with that fitter's
  collinearity error or returns its model, tagged \<open>affine\<close>.
\<close>

theorem model_selection:
  "calculateTransform None = Inr None
   \<and> (length ps < 2 \<longrightarrow> calculateTransform (Some ps) = Inr None)
   \<and> (length qs = 2 \<longrightarrow>
        (\<exists>m. computeSimilarityTransform qs = Inr m
           \<and> calculateTransform (Some qs) = Inr (Some (SimilarityT m, ''similarity''))))
   \<and> (3 \<le> length rs \<longrightarrow>
        (computeAffineTransform rs = Inl CollinearPoints
           \<and> calculateTransform (Some rs) = Inl CollinearPoints)
        \<or> (\<exists>m. computeAffineTransform rs = Inr m
              \<and> calculateTransform (Some rs) = Inr (Some (AffineT m, ''affine''))))"
proof (intro conjI impI)
  show "calculateTransform None = Inr None"
    by (simp add: calculateTransform_def)
next
  assume "length ps < 2"
  then show "calculateTransform (Some ps) = Inr None"
    by (simp add: calculateTransform_def)
next
  assume two: "length qs = 2"
  then obtain m where "computeSimilarityTransform qs = Inr m"
    using computeSimilarityTransform_two by blast
  then show "\<exists>m. computeSimilarityTransform qs = Inr m
           \<and> calculateTransform (Some qs) = Inr (Some (SimilarityT m, ''similarity''))"
    using two by (simp add: calculateTransform_def)
next
  assume three: "3 \<le> length rs"
  from computeAffineTransform_three [OF three]
  show "(computeAffineTransform rs = Inl CollinearPoints
           \<and> calculateTransform (Some rs) = Inl CollinearPoints)
        \<or> (\<exists>m. computeAffineTransform rs = Inr m
              \<and> calculateTransform (Some rs) = Inr (Some (AffineT m, ''affine'')))"
    using three by (auto simp: calculateTransform_def)
qed

theorem model_selection_witness:
  "length ([] :: refpoint list) < 2 \<and> length scenarioA = 2 \<and> 3 \<le> length scenarioB
   \<and> calculateTransform None = Inr None
   \<and> calculateTransform (Some []) = Inr None
   \<and> calculateTransform (Some scenarioA)
       = Inr (Some (SimilarityT \<lparr>scale = Num (1 / 100), rotation = Num (pi / 2),
                                  tx = Num 0, ty = Num 0\<rparr>, ''similarity''))
   \<and> calculateTransform (Some scenarioB) = Inr (Some (AffineT fitted_B, ''affine''))"
proof -
  have fitA: "computeSimilarityTransform scenarioA
     = Inr \<lparr>scale = Num (1 / 100), rotation = Num (pi / 2), tx = Num 0, ty = Num 0\<rparr>"
    by (simp add: computeSimilarityTransform_def scenarioA_def Let_def atan2_def sqrt_10000)
  have lenA: "length scenarioA = 2"
    by (simp add: scenarioA_def)
  have lenB: "3 \<le> length scenarioB"
    by (simp add: scenarioB_def)
  show ?thesis
    using model_selection [of "[]" scenarioA scenarioB] fitA lenA lenB
      computeAffineTransform_scenarioB
    by simp
qed

text \<open>
  C8 as stated fails on a list of three collinear points: the fitter's error passes
  through \<open>calculateTransform\<close>, and no model is returned.
\<close>

theorem collinear_selection_fails: "calculateTransform (Some collinear3) = Inl CollinearPoints"
proof -
  have len: "length collinear3 = 3"
    by (simp add: collinear3_def)
  have "computeAffineTransform collinear3 = Inl CollinearPoints"
    by (simp add: computeAffineTransform_def len normal_det_collinear3 tolerance_def Let_def)
  then show ?thesis
    by (simp add: calculateTransform_def len)
qed

section \<open>Round trip\<close>

lemma similarity_roundtrip:
  assumes s: "s \<noteq> 0"
  shows "geoToImage (Num (s * cos r * x - s * sin r * y + u))
           (Num (s * sin r * x + s * cos r * y + v))
           (SimilarityT \<lparr>scale = Num s, rotation = Num r, tx = Num u, ty = Num v\<rparr>)
           ''similarity''
         = Inr (Num x, Num y)"
proof -
  have unit: "cos r * cos r + sin r * sin r = 1"
    using sin_cos_squared_add2 [of r] by (simp add: power2_eq_square)
  have "cos r * (s * cos r * x - s * sin r * y) + sin r * (s * sin r * x + s * cos r * y)
          = s * x * (cos r * cos r + sin r * sin r)"
    by algebra
  then have X: "(cos r * (s * cos r * x - s * sin r * y)
                  + sin r * (s * sin r * x + s * cos r * y)) / s = x"
    using s by (simp add: unit)
  have "- sin r * (s * cos r * x - s * sin r * y) + cos r * (s * sin r * x + s * cos r * y)
          = s * y * (cos r * cos r + sin r * sin r)"
    by algebra
  then have Y: "(- sin r * (s * cos r * x - s * sin r * y)
                  + cos r * (s * sin r * x + s * cos r * y)) / s = y"
    using s by (simp add: unit)
  show ?thesis
    using s X Y by (simp add: geoToImage_def similarity_of_def Let_def)
qed

lemma affine_roundtrip:
  assumes det: "\<not> \<bar>ka * ke - kb * kd\<bar> < 1 / 10 ^ 10"
  shows "geoToImage (Num (ka * x + kb * y + kc)) (Num (kd * x + ke * y + kf))
           (AffineT \<lparr>a = Num ka, b = Num kb, c = Num kc, d = Num kd, e = Num ke, f = Num kf\<rparr>)
           ''affine''
         = Inr (Num x, Num y)"
proof -
  have nz: "ka * ke - kb * kd \<noteq> 0"
    using det by auto
  have "ke * (ka * x + kb * y) - kb * (kd * x + ke * y) = x * (ka * ke - kb * kd)"
    by (simp add: algebra_simps)
  then have X: "(ke * (ka * x + kb * y) - kb * (kd * x + ke * y)) / (ka * ke - kb * kd) = x"
    using nz by simp
  have "- kd * (ka * x + kb * y) + ka * (kd * x + ke * y) = y * (ka * ke - kb * kd)"
    by (simp add: algebra_simps)
  then have Y: "(- kd * (ka * x + kb * y) + ka * (kd * x + ke * y)) / (ka * ke - kb * kd) = y"
    using nz by simp
  show ?thesis
    using det nz X Y by (simp add: geoToImage_def affine_of_def Let_def tolerance_def)
qed

text \<open>
  C2, as the formulas have it.  In exact arithmetic, for every model with finite
  parameters whose inverse is defined (a similarity with nonzero scale, an affine model
  whose determinant passes the tolerance test) and every finite pixel, \<open>imageToGeo\<close>
  returns coordinates from which \<open>geoToImage\<close>, under the same model, returns the pixel:
  \<open>geoToImage\<close> is the algebraic inverse of \<open>imageToGeo\<close>.
\<close>

theorem round_trip:
  assumes "invertible t tp" and "isFinite px" and "isFinite py"
  shows "\<exists>glon glat. imageToGeo px py t tp = Inr (glon, glat)
           \<and> geoToImage glon glat t tp = Inr (px, py)"
proof -
  obtain x y where p: "px = Num x" "py = Num y"
    using assms(2,3) by (auto simp: isFinite_iff)
  show ?thesis
  proof (cases t)
    case (SimilarityT m)
    with assms(1) obtain s r u v where
      m: "m = \<lparr>scale = Num s, rotation = Num r, tx = Num u, ty = Num v\<rparr>" and s: "s \<noteq> 0"
      and tp: "tp = ''similarity''"
      by (cases m) (auto simp: isFinite_iff)
    have "imageToGeo px py t tp
            = Inr (Num (s * cos r * x - s * sin r * y + u), Num (s * sin r * x + s * cos r * y + v))"
      by (simp add: imageToGeo_def similarity_of_def Let_def p m tp SimilarityT)
    then show ?thesis
      using similarity_roundtrip [OF s] by (simp add: p m tp SimilarityT)
  next
    case (AffineT m)
    with assms(1) obtain ka kb kc kd ke kf where
      m: "m = \<lparr>a = Num ka, b = Num kb, c = Num kc, d = Num kd, e = Num ke, f = Num kf\<rparr>"
      and det: "\<not> \<bar>ka * ke - kb * kd\<bar> < 1 / 10 ^ 10"
      and tp: "tp = ''affine''"
      by (cases m) (auto simp: isFinite_iff tolerance_def)
    have "imageToGeo px py t tp = Inr (Num (ka * x + kb * y + kc), Num (kd * x + ke * y + kf))"
      by (simp add: imageToGeo_def affine_of_def Let_def p m tp AffineT)
    then show ?thesis
      using affine_roundtrip [OF det] by (simp add: p m tp AffineT)
  qed
qed

theorem round_trip_witness:
  "invertible (SimilarityT quarter_turn) ''similarity''
   \<and> invertible (AffineT shear) ''affine''
   \<and> isFinite (Num 3) \<and> isFinite (Num 4)
   \<and> imageToGeo (Num 3) (Num 4) (SimilarityT quarter_turn) ''similarity'' = Inr (Num (- 7), Num 7)
   \<and> geoToImage (Num (- 7)) (Num 7) (SimilarityT quarter_turn) ''similarity'' = Inr (Num 3, Num 4)
   \<and> imageToGeo (Num 3) (Num 4) (AffineT shear) ''affine'' = Inr (Num 20, Num 24)
   \<and> geoToImage (Num 20) (Num 24) (AffineT shear) ''affine'' = Inr (Num 3, Num 4)"
proof -
  have i1: "invertible (SimilarityT quarter_turn) ''similarity''"
    by (simp add: quarter_turn_def)
  have i2: "invertible (AffineT shear) ''affine''"
    by (simp add: shear_def tolerance_def)
  have f1: "imageToGeo (Num 3) (Num 4) (SimilarityT quarter_turn) ''similarity''
              = Inr (Num (- 7), Num 7)"
    by (simp add: imageToGeo_def similarity_of_def Let_def quarter_turn_def)
  have f2: "imageToGeo (Num 3) (Num 4) (AffineT shear) ''affine'' = Inr (Num 20, Num 24)"
    by (simp add: imageToGeo_def affine_of_def Let_def shear_def)
  show ?thesis
    using i1 i2 f1 f2
      round_trip [OF i1, of "Num 3" "Num 4"] round_trip [OF i2, of "Num 3" "Num 4"]
    by simp
qed

lemma fl_tie_to_even: "fl 9007199254740993 = Num 9007199254740992"
proof -
  have "fl 9007199254740993 =
     (let y = of_int (round_half_even (9007199254740993 / pow2 (53 - 52))) * pow2 (53 - 52)
      in if pow2 1024 \<le> y then PosInf else if y \<le> - pow2 1024 then NegInf else Num y)"
    by (rule fl_eval) (simp_all add: pow2_def)
  then show ?thesis
    by (simp add: pow2_def round_half_even_def Let_def)
qed

text \<open>
  C2 as stated, a round trip within a tolerance in double arithmetic, fails on the
  identity with the offset \<open>2 ^ 53\<close>.  The determinant is 1; \<open>imageToGeo\<close> maps pixel
  \<open>(1, 0)\<close> to \<open>1 + 2 ^ 53\<close>, which rounds to \<open>2 ^ 53\<close>, and \<open>geoToImage\<close> maps that
  back to pixel \<open>(0, 0)\<close>.
\<close>

theorem round_trip_absorbed:
  "invertible (AffineT big_offset) ''affine''
   \<and> imageToGeo_affine_fl (Num 1) (Num 0) big_offset = Inr (Num (2 ^ 53), Num 0)
   \<and> geoToImage_affine_fl (Num (2 ^ 53)) (Num 0) big_offset = Inr (Num 0, Num 0)"
proof (intro conjI)
  show "invertible (AffineT big_offset) ''affine''"
    by (simp add: big_offset_def tolerance_def)
  show "imageToGeo_affine_fl (Num 1) (Num 0) big_offset = Inr (Num (2 ^ 53), Num 0)"
    by (simp add: imageToGeo_affine_fl_def big_offset_def Let_def fl_ops fl_tie_to_even)
  show "geoToImage_affine_fl (Num (2 ^ 53)) (Num 0) big_offset = Inr (Num 0, Num 0)"
    by (simp add: geoToImage_affine_fl_def big_offset_def Let_def fl_ops tolerance_fl_value)
qed

section \<open>Degenerate inputs that the code lets through\<close>

text \<open>
  C6. The specification expects an error when the two points of a similarity fit lie on
  the same pixel.  \<open>computeSimilarityTransform\<close> has no such check: with a finite pixel
  shared by the first two points it divides by the zero image distance and returns a
  model whose scale is not finite.
\<close>

theorem coincident_pixels_fit:
  assumes "isFinite (imageX p1)" and "isFinite (imageY p1)"
    and "imageX p2 = imageX p1" and "imageY p2 = imageY p1"
  shows "\<exists>m. computeSimilarityTransform (p1 # p2 # rest) = Inr m \<and> \<not> isFinite (scale m)"
proof -
  obtain x y where xy: "imageX p1 = Num x" "imageY p1 = Num y"
    using assms(1,2) by (auto simp: isFinite_iff)
  have "Math_sqrt ((imageX p2 - imageX p1) * (imageX p2 - imageX p1)
          + (imageY p2 - imageY p1) * (imageY p2 - imageY p1)) = Num 0"
    by (simp add: assms(3,4) xy)
  then show ?thesis
    by (simp add: computeSimilarityTransform_def Let_def divide_by_zero_not_finite)
qed

theorem coincident_pixels_fit_witness:
  "isFinite (Num 0)
   \<and> computeSimilarityTransform coincident2
       = Inr \<lparr>scale = PosInf, rotation = Num 0, tx = NaN, ty = NaN\<rparr>
   \<and> \<not> isFinite PosInf"
proof -
  have fit: "computeSimilarityTransform coincident2
       = Inr \<lparr>scale = PosInf, rotation = Num 0, tx = NaN, ty = NaN\<rparr>"
    by (simp add: computeSimilarityTransform_def coincident2_def Let_def atan2_def
        minus_number_def)
  show ?thesis
    using fit
      coincident_pixels_fit [of "\<lparr>imageX = Num 0, imageY = Num 0, lon = Num 0, lat = Num 0\<rparr>"
        "\<lparr>imageX = Num 0, imageY = Num 0, lon = Num 1, lat = Num 0\<rparr>" "[]"]
    by (simp add: coincident2_def)
qed

text \<open>
  C7. The specification expects the singularity error from \<open>geoToImage\<close> for a
  similarity model of scale 0.  Only the affine branch tests its determinant; the
  similarity branch divides by the scale, so for every geographic input it returns
  coordinates, and neither of them is finite.
\<close>

theorem zero_scale_inverse:
  assumes "scale m = Num 0"
  shows "\<exists>x y. geoToImage glon glat (SimilarityT m) ''similarity'' = Inr (x, y)
           \<and> \<not> isFinite x \<and> \<not> isFinite y"
  using assms by (simp add: geoToImage_def similarity_of_def Let_def divide_by_zero_not_finite)

theorem zero_scale_inverse_witness:
  "scale zero_scale = Num 0
   \<and> geoToImage (Num 1) (Num 1) (SimilarityT zero_scale) ''similarity'' = Inr (PosInf, PosInf)"
proof -
  have z: "scale zero_scale = Num 0"
    by (simp add: zero_scale_def)
  have ev: "geoToImage (Num 1) (Num 1) (SimilarityT zero_scale) ''similarity''
              = Inr (PosInf, PosInf)"
    by (simp add: geoToImage_def similarity_of_def Let_def zero_scale_def)
  show ?thesis
    using z ev zero_scale_inverse [OF z, of "Num 1" "Num 1"] by simp
qed

section \<open>Interpolation of the fitted points\<close>

subsection \<open>The angle and the length of a vector\<close>

lemma hyp_pos:
  assumes "0 < x"
  shows "sqrt (x * x + y * y) = x * sqrt (1 + (y / x)\<^sup>2)"
proof -
  have "x * x + y * y = x\<^sup>2 * (1 + (y / x)\<^sup>2)"
    using assms by (simp add: power2_eq_square field_simps)
  then have "sqrt (x * x + y * y) = sqrt (x\<^sup>2) * sqrt (1 + (y / x)\<^sup>2)"
    by (simp add: real_sqrt_mult)
  then show ?thesis
    using assms by simp
qed

lemma hyp_neg:
  assumes "x < 0"
  shows "sqrt (x * x + y * y) = - x * sqrt (1 + (y / x)\<^sup>2)"
proof -
  have "x * x + y * y = x\<^sup>2 * (1 + (y / x)\<^sup>2)"
    using assms by (simp add: power2_eq_square field_simps)
  then have "sqrt (x * x + y * y) = sqrt (x\<^sup>2) * sqrt (1 + (y / x)\<^sup>2)"
    by (simp add: real_sqrt_mult)
  then show ?thesis
    using assms by simp
qed

lemma root_pos: "0 < sqrt (1 + (t::real)\<^sup>2)"
  by (simp add: add_pos_nonneg)

lemma cos_atan2: "sqrt (x * x + y * y) * cos (atan2 y x) = x"
proof -
  consider "0 < x" | "x < 0" | "x = 0" by linarith
  then show ?thesis
  proof cases
    case 1
    then show ?thesis
      using root_pos [of "y / x"] by (simp add: atan2_def hyp_pos cos_arctan)
  next
    case 2
    then show ?thesis
      using root_pos [of "y / x"] by (simp add: atan2_def hyp_neg cos_arctan)
  next
    case 3
    then show ?thesis
      by (simp add: atan2_def)
  qed
qed

lemma sin_atan2: "sqrt (x * x + y * y) * sin (atan2 y x) = y"
proof -
  consider "0 < x" | "x < 0" | "x = 0" by linarith
  then show ?thesis
  proof cases
    case 1
    then show ?thesis
      using root_pos [of "y / x"] by (simp add: atan2_def hyp_pos sin_arctan)
  next
    case 2
    then show ?thesis
      using root_pos [of "y / x"] by (simp add: atan2_def hyp_neg sin_arctan)
  next
    case 3
    then show ?thesis
      by (simp add: atan2_def)
  qed
qed

subsection \<open>The similarity fit carries the image displacement to the geographic one\<close>

lemma similarity_core:
  fixes u v gx gy :: real
  assumes nz: "u \<noteq> 0 \<or> v \<noteq> 0"
  shows "sqrt (gx * gx + gy * gy) / sqrt (u * u + v * v) * cos (atan2 gy gx - atan2 v u) * u
           - sqrt (gx * gx + gy * gy) / sqrt (u * u + v * v) * sin (atan2 gy gx - atan2 v u) * v
         = gx"
    and "sqrt (gx * gx + gy * gy) / sqrt (u * u + v * v) * sin (atan2 gy gx - atan2 v u) * u
           + sqrt (gx * gx + gy * gy) / sqrt (u * u + v * v) * cos (atan2 gy gx - atan2 v u) * v
         = gy"
proof -
  define I where "I = sqrt (u * u + v * v)"
  define G where "G = sqrt (gx * gx + gy * gy)"
  define ti where "ti = atan2 v u"
  define tg where "tg = atan2 gy gx"
  have I: "0 < I"
    unfolding I_def using nz by (rule sum_squares_pos)
  have u: "I * cos ti = u" and v: "I * sin ti = v"
    unfolding I_def ti_def by (simp_all add: cos_atan2 sin_atan2)
  have gx: "G * cos tg = gx" and gy: "G * sin tg = gy"
    unfolding G_def tg_def by (simp_all add: cos_atan2 sin_atan2)
  have unit: "cos ti * cos ti + sin ti * sin ti = 1"
    using sin_cos_squared_add2 [of ti] by (simp add: power2_eq_square)
  have "G / I * cos (tg - ti) * (I * cos ti) - G / I * sin (tg - ti) * (I * sin ti)
          = G * (cos (tg - ti) * cos ti - sin (tg - ti) * sin ti)"
    using I by (simp add: field_simps)
  also have "cos (tg - ti) * cos ti - sin (tg - ti) * sin ti
          = cos tg * (cos ti * cos ti + sin ti * sin ti)"
    unfolding cos_diff sin_diff by algebra
  finally have "G / I * cos (tg - ti) * (I * cos ti) - G / I * sin (tg - ti) * (I * sin ti) = gx"
    by (simp add: unit gx)
  then show "sqrt (gx * gx + gy * gy) / sqrt (u * u + v * v) * cos (atan2 gy gx - atan2 v u) * u
           - sqrt (gx * gx + gy * gy) / sqrt (u * u + v * v) * sin (atan2 gy gx - atan2 v u) * v
         = gx"
    unfolding u v unfolding I_def G_def ti_def tg_def .
  have "G / I * sin (tg - ti) * (I * cos ti) + G / I * cos (tg - ti) * (I * sin ti)
          = G * (sin (tg - ti) * cos ti + cos (tg - ti) * sin ti)"
    using I by (simp add: field_simps)
  also have "sin (tg - ti) * cos ti + cos (tg - ti) * sin ti
          = sin tg * (cos ti * cos ti + sin ti * sin ti)"
    unfolding cos_diff sin_diff by algebra
  finally have "G / I * sin (tg - ti) * (I * cos ti) + G / I * cos (tg - ti) * (I * sin ti) = gy"
    by (simp add: unit gy)
  then show "sqrt (gx * gx + gy * gy) / sqrt (u * u + v * v) * sin (atan2 gy gx - atan2 v u) * u
           + sqrt (gx * gx + gy * gy) / sqrt (u * u + v * v) * cos (atan2 gy gx - atan2 v u) * v
         = gy"
    unfolding u v unfolding I_def G_def ti_def tg_def .
qed

lemma similarity_fit_finite:
  fixes x1 y1 g1 h1 x2 y2 g2 h2 :: real
  assumes nz: "x2 - x1 \<noteq> 0 \<or> y2 - y1 \<noteq> 0"
  shows "computeSimilarityTransform
           (\<lparr>imageX = Num x1, imageY = Num y1, lon = Num g1, lat = Num h1\<rparr>
            # \<lparr>imageX = Num x2, imageY = Num y2, lon = Num g2, lat = Num h2\<rparr> # rest)
         = (let s = sqrt ((g2 - g1) * (g2 - g1) + (h2 - h1) * (h2 - h1))
                      / sqrt ((x2 - x1) * (x2 - x1) + (y2 - y1) * (y2 - y1));
                r = atan2 (h2 - h1) (g2 - g1) - atan2 (y2 - y1) (x2 - x1)
            in Inr \<lparr>scale = Num s, rotation = Num r,
                     tx = Num (g1 - (s * cos r * x1 - s * sin r * y1)),
                     ty = Num (h1 - (s * sin r * x1 + s * cos r * y1))\<rparr>)"
proof -
  have "sqrt ((x2 - x1) * (x2 - x1) + (y2 - y1) * (y2 - y1)) \<noteq> 0"
    using sum_squares_pos [OF nz] by (rule less_imp_neq [THEN not_sym])
  then show ?thesis
    by (simp add: computeSimilarityTransform_def Let_def sum_squares_not_neg)
qed

text \<open>
  The similarity half of the interpolation property: the model fitted from two finite
  points on distinct pixels maps the pixel of each to its geographic coordinates.
\<close>

lemma similarity_interpolates:
  assumes p1: "finite_point p1" and p2: "finite_point p2"
    and distinct: "imageX p1 \<noteq> imageX p2 \<or> imageY p1 \<noteq> imageY p2"
  shows "\<exists>m. computeSimilarityTransform (p1 # p2 # rest) = Inr m
           \<and> imageToGeo (imageX p1) (imageY p1) (SimilarityT m) ''similarity''
               = Inr (lon p1, lat p1)
           \<and> imageToGeo (imageX p2) (imageY p2) (SimilarityT m) ''similarity''
               = Inr (lon p2, lat p2)"
proof -
  from p1 obtain x1 y1 g1 h1 where
    P1: "p1 = \<lparr>imageX = Num x1, imageY = Num y1, lon = Num g1, lat = Num h1\<rparr>"
    by (rule finite_pointE)
  from p2 obtain x2 y2 g2 h2 where
    P2: "p2 = \<lparr>imageX = Num x2, imageY = Num y2, lon = Num g2, lat = Num h2\<rparr>"
    by (rule finite_pointE)
  have nz: "x2 - x1 \<noteq> 0 \<or> y2 - y1 \<noteq> 0"
    using distinct by (auto simp: P1 P2)
  define s where "s = sqrt ((g2 - g1) * (g2 - g1) + (h2 - h1) * (h2 - h1))
                      / sqrt ((x2 - x1) * (x2 - x1) + (y2 - y1) * (y2 - y1))"
  define r where "r = atan2 (h2 - h1) (g2 - g1) - atan2 (y2 - y1) (x2 - x1)"
  define m where "m = \<lparr>scale = Num s, rotation = Num r,
                     tx = Num (g1 - (s * cos r * x1 - s * sin r * y1)),
                     ty = Num (h1 - (s * sin r * x1 + s * cos r * y1))\<rparr>"
  have fit: "computeSimilarityTransform (p1 # p2 # rest) = Inr m"
    unfolding P1 P2 similarity_fit_finite [OF nz] by (simp add: Let_def m_def s_def r_def)
  have X: "s * cos r * (x2 - x1) - s * sin r * (y2 - y1) = g2 - g1"
    and Y: "s * sin r * (x2 - x1) + s * cos r * (y2 - y1) = h2 - h1"
    unfolding s_def r_def using similarity_core [OF nz] by blast+
  have at1: "imageToGeo (imageX p1) (imageY p1) (SimilarityT m) ''similarity''
               = Inr (lon p1, lat p1)"
    by (simp add: imageToGeo_def similarity_of_def Let_def m_def P1)
  have "s * cos r * x2 - s * sin r * y2 + (g1 - (s * cos r * x1 - s * sin r * y1))
          = g1 + (s * cos r * (x2 - x1) - s * sin r * (y2 - y1))"
    by (simp add: algebra_simps)
  then have lon2: "s * cos r * x2 - s * sin r * y2 + (g1 - (s * cos r * x1 - s * sin r * y1)) = g2"
    by (simp add: X)
  have "s * sin r * x2 + s * cos r * y2 + (h1 - (s * sin r * x1 + s * cos r * y1))
          = h1 + (s * sin r * (x2 - x1) + s * cos r * (y2 - y1))"
    by (simp add: algebra_simps)
  then have lat2: "s * sin r * x2 + s * cos r * y2 + (h1 - (s * sin r * x1 + s * cos r * y1)) = h2"
    by (simp add: Y)
  have at2: "imageToGeo (imageX p2) (imageY p2) (SimilarityT m) ''similarity''
               = Inr (lon p2, lat p2)"
    using lon2 lat2 by (simp add: imageToGeo_def similarity_of_def Let_def m_def P2)
  from fit at1 at2 show ?thesis by blast
qed

text \<open>
  C3. The specification expects every point used for a fit to be mapped to its own
  geographic coordinates.  The similarity fit does that in exact arithmetic
  (\<open>similarity_interpolates\<close>);
  the affine fit of three non-collinear points does not: on scenario B the first
  point, pixel \<open>(0, 0)\<close> with coordinates \<open>(10, 20)\<close>, is mapped to \<open>(-1/3, -1/3)\<close>.
\<close>

theorem scenarioB_not_interpolated:
  "hd scenarioB = \<lparr>imageX = Num 0, imageY = Num 0, lon = Num 10, lat = Num 20\<rparr>
   \<and> (case computeAffineTransform scenarioB of
         Inl err \<Rightarrow> Inl err
       | Inr m \<Rightarrow> imageToGeo (Num 0) (Num 0) (AffineT m) ''affine'')
     = Inr (Num (- (1 / 3)), Num (- (1 / 3)))"
proof
  show "hd scenarioB = \<lparr>imageX = Num 0, imageY = Num 0, lon = Num 10, lat = Num 20\<rparr>"
    by (simp add: scenarioB_def)
  show "(case computeAffineTransform scenarioB of
           Inl err \<Rightarrow> Inl err
         | Inr m \<Rightarrow> imageToGeo (Num 0) (Num 0) (AffineT m) ''affine'')
        = Inr (Num (- (1 / 3)), Num (- (1 / 3)))"
    by (simp add: computeAffineTransform_scenarioB fitted_B_def imageToGeo_def affine_of_def
        Let_def)
qed

section \<open>The two affine fitters\<close>

text \<open>
  C10. The specification expects the least-squares fitter and the triangle-based fitter
  to return the same coefficients on three non-collinear points.  On scenario B they
  cannot: whenever the triangle-based fitter returns a model that maps the three pixels
  to their coordinates, which is what \<^verbatim>\<open>fromTriangles\<close> is for, the least-squares code
  returns a different model.
\<close>

theorem fitters_disagree:
  assumes "computeAffineTransform_triangles fromTriangles scenarioB = Inr m"
    and "\<forall>p \<in> set scenarioB.
           imageToGeo (imageX p) (imageY p) (AffineT m) ''affine'' = Inr (lon p, lat p)"
  shows "computeAffineTransform scenarioB \<noteq> Inr m"
proof
  assume "computeAffineTransform scenarioB = Inr m"
  then have m: "m = fitted_B"
    by (simp add: computeAffineTransform_scenarioB)
  have "imageToGeo (Num 0) (Num 0) (AffineT m) ''affine'' = Inr (Num 10, Num 20)"
    using assms(2) by (simp add: scenarioB_def)
  then show False
    by (simp add: m fitted_B_def imageToGeo_def affine_of_def Let_def)
qed

theorem fitters_disagree_witness:
  "computeAffineTransform_triangles (\<lambda>t1 t2. Some offset_matrix) scenarioB = Inr offset_B
   \<and> list_all (\<lambda>p. imageToGeo (imageX p) (imageY p) (AffineT offset_B) ''affine''
                       = Inr (lon p, lat p)) scenarioB
   \<and> computeAffineTransform scenarioB = Inr fitted_B
   \<and> fitted_B \<noteq> offset_B"
proof -
  have tri: "computeAffineTransform_triangles (\<lambda>t1 t2. Some offset_matrix) scenarioB
               = Inr offset_B"
    by (simp add: computeAffineTransform_triangles_def scenarioB_def offset_matrix_def
        offset_B_def Let_def)
  have interp: "\<forall>p \<in> set scenarioB.
      imageToGeo (imageX p) (imageY p) (AffineT offset_B) ''affine'' = Inr (lon p, lat p)"
    by (simp add: scenarioB_def imageToGeo_def affine_of_def offset_B_def Let_def)
  show ?thesis
    using tri interp fitters_disagree [OF tri interp]
    by (simp add: computeAffineTransform_scenarioB list_all_iff)
qed

end
